theory Spec2Isabelle
  imports Complex_Main "HOL-Library.Sublist"
begin

section \<open>Strings as Python uses them\<close>

text \<open>
  Python strings are modelled as \<open>string\<close>. The scanner only ever lowercases text and
  tests for substrings; both are written out here. \<open>lower_char\<close> is \<open>str.lower\<close> on the
  ASCII range (the letters A to Z); every token the scanner looks for is ASCII.
\<close>

definition lower_char :: "char \<Rightarrow> char" where
  "lower_char c =
     (case map_of (zip ''ABCDEFGHIJKLMNOPQRSTUVWXYZ'' ''abcdefghijklmnopqrstuvwxyz'') c of
        None \<Rightarrow> c
      | Some l \<Rightarrow> l)"

definition lower :: "string \<Rightarrow> string" where
  "lower s = map lower_char s"

fun starts_with :: "string \<Rightarrow> string \<Rightarrow> bool" where
  "starts_with [] s = True"
| "starts_with (p # ps) [] = False"
| "starts_with (p # ps) (c # cs) = (p = c \<and> starts_with ps cs)"

text \<open>\<open>contains p s\<close> is Python's \<open>p in s\<close> on strings.\<close>

fun contains :: "string \<Rightarrow> string \<Rightarrow> bool" where
  "contains p [] = (p = [])"
| "contains p (c # cs) = (starts_with p (c # cs) \<or> contains p cs)"

text \<open>\<open>join sep xs\<close> is \<open>sep.join(xs)\<close>.\<close>

fun join :: "string \<Rightarrow> string list \<Rightarrow> string" where
  "join sep [] = []"
| "join sep [x] = x"
| "join sep (x # y # ys) = x @ sep @ join sep (y # ys)"

text \<open>\<open>any_in ps s\<close> is \<open>any(p in s for p in ps)\<close>.\<close>

definition any_in :: "string list \<Rightarrow> string \<Rightarrow> bool" where
  "any_in ps s = list_ex (\<lambda>p. contains p s) ps"

section \<open>Raw search items and the relevance filter\<close>

text \<open>
  A raw item of the search provider is a dictionary; the scanner reads it with
  \<open>item.get(key, default)\<close>, so every key may be absent. The page map is a dictionary
  from a source name to a list of string dictionaries.
\<close>

type_synonym str_dict = "(string \<times> string) list"
type_synonym pagemap = "(string \<times> str_dict list) list"

record raw_item =
  item_title :: "string option"
  item_link :: "string option"
  item_snippet :: "string option"
  item_displayLink :: "string option"
  item_pagemap :: "pagemap option"

definition get_or :: "'a option \<Rightarrow> 'a \<Rightarrow> 'a" where
  "get_or v d = (case v of None \<Rightarrow> d | Some x \<Rightarrow> x)"

definition uk_domains :: "string list" where
  "uk_domains = [''.gov.uk'', ''.ac.uk'', ''.co.uk'', ''.org.uk'', ''.nhs.uk'']"

definition uk_keywords :: "string list" where
  "uk_keywords = [''united kingdom'', ''uk'', ''britain'', ''england'', ''wales'',
     ''scotland'', ''ofwat'', ''defra'']"

definition non_uk_indicators :: "string list" where
  "non_uk_indicators = [''usa'', ''united states'', ''colorado'', ''california'', ''.edu'']"

definition item_url :: "raw_item \<Rightarrow> string" where
  "item_url item = lower (get_or (item_link item) [])"

definition title_snippet :: "raw_item \<Rightarrow> string" where
  "title_snippet item =
     lower (get_or (item_title item) [] @ '' '' @ get_or (item_snippet item) [])"

definition is_uk_relevant :: "raw_item \<Rightarrow> string list \<Rightarrow> bool" where
  "is_uk_relevant item geographic_scope =
     (if ''UK'' \<notin> set geographic_scope then True
      else if any_in uk_domains (item_url item) then True
      else if any_in uk_keywords (title_snippet item) then True
      else if list_ex (\<lambda>indicator. contains indicator (item_url item)
                 \<or> contains indicator (title_snippet item)) non_uk_indicators then False
      else True)"

section \<open>Search retrieval\<close>

text \<open>
  Exceptions of the Python code are values. Each carries the text that \<open>str(e)\<close> gives.
\<close>

datatype py_error =
    HttpError string
  | IndexError string
  | TypeError string
  | AttributeError string
  | JSONDecodeError string
  | APIError string
  | OtherError string

fun error_text :: "py_error \<Rightarrow> string" where
  "error_text (HttpError m) = m"
| "error_text (IndexError m) = m"
| "error_text (TypeError m) = m"
| "error_text (AttributeError m) = m"
| "error_text (JSONDecodeError m) = m"
| "error_text (APIError m) = m"
| "error_text (OtherError m) = m"

text \<open>
  \<open>_extract_date_from_result\<close>. \<open>truthy\<close> keeps a value that is present and not empty.
  \<open>pagemap[source][0]\<close> raises IndexError on an empty list.
\<close>

definition truthy :: "string option \<Rightarrow> string option" where
  "truthy v = (case v of None \<Rightarrow> None | Some s \<Rightarrow> if s = [] then None else Some s)"

fun first_date_field :: "str_dict \<Rightarrow> string list \<Rightarrow> string option" where
  "first_date_field tags [] = None"
| "first_date_field tags (field # rest) =
     (case truthy (map_of tags field) of
        Some date_val \<Rightarrow> Some date_val
      | None \<Rightarrow> first_date_field tags rest)"

fun scan_date_sources :: "pagemap \<Rightarrow> string list \<Rightarrow> py_error + string" where
  "scan_date_sources pm [] = Inr ''Recent''"
| "scan_date_sources pm (source # rest) =
     (case map_of pm source of
        None \<Rightarrow> scan_date_sources pm rest
      | Some [] \<Rightarrow> Inl (IndexError ''list index out of range'')
      | Some (entry # _) \<Rightarrow>
          (case truthy (case truthy (map_of entry ''datepublished'') of
                          Some published \<Rightarrow> Some published
                        | None \<Rightarrow> map_of entry ''datemodified'') of
             Some date_val \<Rightarrow> Inr date_val
           | None \<Rightarrow> scan_date_sources pm rest))"

definition extract_date_from_result :: "raw_item \<Rightarrow> py_error + string" where
  "extract_date_from_result item =
     (let pm = get_or (item_pagemap item) [];
          metatags = get_or (map_of pm ''metatags'') [[]];
          found = (case metatags of
                     [] \<Rightarrow> None
                   | tags # _ \<Rightarrow> first_date_field tags
                       [''article:published_time'', ''date'', ''pubdate'', ''last-modified''])
      in case found of
           Some date_val \<Rightarrow> Inr date_val
         | None \<Rightarrow> scan_date_sources pm [''newsarticle'', ''article'', ''webpage''])"

text \<open>A normalised search hit, as \<open>execute_google_search\<close> builds it.\<close>

record hit =
  hit_title :: string
  hit_url :: string
  hit_snippet :: string
  hit_source :: string
  hit_date :: string
  hit_query :: string
  hit_content :: string

definition search_result :: "raw_item \<Rightarrow> string \<Rightarrow> string \<Rightarrow> hit" where
  "search_result item date query =
     \<lparr>hit_title = get_or (item_title item) [],
      hit_url = get_or (item_link item) [],
      hit_snippet = get_or (item_snippet item) [],
      hit_source = get_or (item_displayLink item) [],
      hit_date = date,
      hit_query = query,
      hit_content = get_or (item_snippet item) []\<rparr>"

text \<open>
  The configuration is a dictionary read with \<open>config.get\<close> or \<open>key in config\<close>:
  every key is optional.
\<close>

record config =
  geo_focus :: "string option"
  sub_sectors :: "string list option"
  categories :: "string list option"
  config_keywords :: "string option"
  geographic_scope :: "string list option"
  time_range :: "string option"
  suppliers :: "string list option"
  intelligence_types :: "string list option"
  market_categories :: "string list option"

text \<open>
  The search provider is outside the program: one call with these parameters either
  raises (the provider's HttpError, or anything else) or returns a result, whose
  \<open>items\<close> key may be absent.
\<close>

record search_params =
  param_q :: string
  param_cx :: string
  param_num :: nat
  param_dateRestrict :: string
  param_gl :: "string option"
  param_hl :: "string option"

datatype search_outcome =
    Raises py_error
  | Returns "raw_item list option"

type_synonym provider = "search_params \<Rightarrow> search_outcome"

text \<open>
  The loop over the items of one result. It appends to \<open>all_results\<close>; when the date
  extraction raises, the loop stops and the exception goes to the handlers of the query,
  with the hits appended so far kept.
\<close>

fun items_loop :: "string list \<Rightarrow> string \<Rightarrow> raw_item list \<Rightarrow> hit list
    \<Rightarrow> hit list \<times> py_error option" where
  "items_loop scope query [] all_results = (all_results, None)"
| "items_loop scope query (item # items) all_results =
     (if is_uk_relevant item scope then
        (case extract_date_from_result item of
           Inl e \<Rightarrow> (all_results, Some e)
         | Inr date \<Rightarrow>
             items_loop scope query items (all_results @ [search_result item date query]))
      else items_loop scope query items all_results)"

definition build_search_params :: "string \<Rightarrow> string list \<Rightarrow> string \<Rightarrow> string
    \<Rightarrow> search_params" where
  "build_search_params cx scope date_restrict query =
     (if ''UK'' \<in> set scope then
        \<lparr>param_q = query @ '' (site:gov.uk OR site:ac.uk OR site:co.uk) \"United Kingdom\" OR \"UK\"'',
         param_cx = cx, param_num = min 10 10, param_dateRestrict = date_restrict,
         param_gl = Some ''uk'', param_hl = Some ''en-GB''\<rparr>
      else
        \<lparr>param_q = query, param_cx = cx, param_num = min 10 10,
         param_dateRestrict = date_restrict, param_gl = None, param_hl = None\<rparr>)"

text \<open>
  The \<open>except\<close> clauses of one query: the text given to \<open>st.error\<close>. Nothing is
  raised again.
\<close>

fun report_search_error :: "string \<Rightarrow> py_error \<Rightarrow> string" where
  "report_search_error query (HttpError m) =
     ''Google Search API error for query '' @ [CHR 0x27] @ query @ [CHR 0x27] @ '': '' @ m"
| "report_search_error query e = ''Unexpected error during search: '' @ error_text e"

text \<open>
  The body of the \<open>for query in queries\<close> loop: the hits after this query and the
  errors reported by it.
\<close>

definition search_one_query :: "provider \<Rightarrow> string \<Rightarrow> string list \<Rightarrow> string \<Rightarrow> string
    \<Rightarrow> hit list \<Rightarrow> hit list \<times> string list" where
  "search_one_query search cx scope date_restrict query all_results =
     (case search (build_search_params cx scope date_restrict query) of
        Raises e \<Rightarrow> (all_results, [report_search_error query e])
      | Returns None \<Rightarrow> (all_results, [])
      | Returns (Some items) \<Rightarrow>
          (case items_loop scope query items all_results of
             (results, None) \<Rightarrow> (results, [])
           | (results, Some e) \<Rightarrow> (results, [report_search_error query e])))"

fun queries_loop :: "provider \<Rightarrow> string \<Rightarrow> string list \<Rightarrow> string \<Rightarrow> string list
    \<Rightarrow> hit list \<Rightarrow> string list \<Rightarrow> hit list \<times> string list" where
  "queries_loop search cx scope date_restrict [] all_results errors = (all_results, errors)"
| "queries_loop search cx scope date_restrict (query # queries) all_results errors =
     (case search_one_query search cx scope date_restrict query all_results of
        (results, reported) \<Rightarrow>
          queries_loop search cx scope date_restrict queries results (errors @ reported))"

text \<open>
  \<open>execute_google_search\<close>. \<open>google_service\<close> says whether the client was set up, \<open>cx\<close>
  is the search-scope identifier of the session. The result is the list of hits and the
  list of errors shown to the user.
\<close>

definition config_scope :: "config \<Rightarrow> string list" where
  "config_scope cfg = get_or (geographic_scope cfg) [''UK'']"

definition config_date_restrict :: "config \<Rightarrow> string" where
  "config_date_restrict cfg =
     (if get_or (time_range cfg) ''Last 6 months'' = ''Last 6 months'' then ''m6'' else ''m3'')"

definition execute_google_search :: "bool \<Rightarrow> provider \<Rightarrow> string \<Rightarrow> string list \<Rightarrow> config
    \<Rightarrow> hit list \<times> string list" where
  "execute_google_search google_service search cx queries cfg =
     (if \<not> google_service then ([], [''Google Search API not configured''])
      else queries_loop search cx (config_scope cfg) (config_date_restrict cfg) queries [] [])"

section \<open>Insight extraction\<close>

text \<open>
  A decoded JSON value, as \<open>json.loads\<close> returns it. An object is kept as the list of
  its key-value pairs and read with \<open>map_of\<close>. Numbers are real numbers: the code only
  copies them.
\<close>

datatype json =
    JNull
  | JBool bool
  | JNum real
  | JStr string
  | JArr "json list"
  | JObj "(string \<times> json) list"

definition dict_get :: "(string \<times> json) list \<Rightarrow> string \<Rightarrow> json \<Rightarrow> json" where
  "dict_get d k dflt = get_or (map_of d k) dflt"

text \<open>
  What a Python \<open>for\<close> loop iterates over: the elements of a list, the characters of a
  string, the keys of a dictionary. Anything else is not iterable (TypeError).
\<close>

fun py_iter :: "json \<Rightarrow> json list option" where
  "py_iter (JArr xs) = Some xs"
| "py_iter (JStr s) = Some (map (\<lambda>c. JStr [c]) s)"
| "py_iter (JObj d) = Some (map (\<lambda>kv. JStr (fst kv)) d)"
| "py_iter JNull = None"
| "py_iter (JBool b) = None"
| "py_iter (JNum x) = None"

text \<open>\<open>str_of_nat n\<close> is \<open>str(n)\<close> for a natural number.\<close>

fun str_of_nat :: "nat \<Rightarrow> string" where
  "str_of_nat n =
     (if n < 10 then [''0123456789'' ! n]
      else str_of_nat (n div 10) @ [''0123456789'' ! (n mod 10)])"

declare str_of_nat.simps [simp del]

text \<open>
  An alert record. The fields that the success path copies from the model's answer hold
  whatever JSON value the model gave; \<open>source\<close>, \<open>url\<close> and \<open>timestamp\<close> come from a hit.
\<close>

record alert =
  alert_id :: string
  title :: json
  category :: json
  impact_level :: json
  summary :: json
  insights :: json
  recommended_actions :: json
  suppliers_mentioned :: json
  relevance_score :: json
  source :: string
  url :: string
  timestamp :: string
  intelligence_type :: json

text \<open>
  The one call to the language model is outside the program. Its outcome is one of: the
  call raises; the content of the answer is empty (\<open>None\<close> or the empty string); the
  content is not empty and \<open>json.loads\<close> rejects it; the content decodes to a value.
\<close>

datatype llm_reply =
    CallRaises string
  | EmptyContent
  | Undecodable string
  | Decoded json

text \<open>
  The clock is outside the program too. Every record reads \<open>int(time.time())\<close> once,
  for its id: \<open>clock n\<close> is what the n-th reading of one call of the extractor gives
  (readings are counted from 0).

  The body of the loop over the insights, for an insight that is a dictionary;
  \<open>now\<close> is the reading of the clock made for it.
\<close>

definition processed_result :: "hit list \<Rightarrow> nat \<Rightarrow> nat \<Rightarrow> (string \<times> json) list \<Rightarrow> alert" where
  "processed_result snippet_data now i insight =
     (let source_index = (if snippet_data \<noteq> [] then i mod length snippet_data else 0) in
      \<lparr>alert_id = ''insight_'' @ str_of_nat now @ ''_'' @ str_of_nat i,
       title = dict_get insight ''title'' (JStr (''Market Intelligence #'' @ str_of_nat (i + 1))),
       category = dict_get insight ''category'' (JStr ''Market Trends''),
       impact_level = dict_get insight ''impact_level'' (JStr ''Medium''),
       summary = dict_get insight ''summary'' (JStr []),
       insights = dict_get insight ''insights'' (JArr []),
       recommended_actions = dict_get insight ''recommended_actions'' (JArr []),
       suppliers_mentioned = dict_get insight ''suppliers_mentioned'' (JArr []),
       relevance_score = dict_get insight ''relevance_score'' (JNum 0.7),
       source = (if snippet_data \<noteq> [] then hit_source (snippet_data ! source_index)
                 else ''Market Intelligence''),
       url = (if snippet_data \<noteq> [] then hit_url (snippet_data ! source_index) else []),
       timestamp = (if snippet_data \<noteq> [] then hit_date (snippet_data ! source_index)
                    else ''Recent''),
       intelligence_type = dict_get insight ''category'' (JStr ''Market Trends'')\<rparr>)"

text \<open>
  The loop \<open>for i, insight in enumerate(...)\<close>. An insight that is not a dictionary has
  no \<open>get\<close>: AttributeError, with the records appended so far left in
  \<open>analyzed_results\<close>. This loop makes the first readings of the clock, so the record
  of index i has the reading i.
\<close>

fun insights_loop :: "hit list \<Rightarrow> (nat \<Rightarrow> nat) \<Rightarrow> nat \<Rightarrow> json list \<Rightarrow> alert list
    \<Rightarrow> alert list \<times> py_error option" where
  "insights_loop snippet_data clock i [] analyzed_results = (analyzed_results, None)"
| "insights_loop snippet_data clock i (JObj insight # rest) analyzed_results =
     insights_loop snippet_data clock (Suc i) rest
       (analyzed_results @ [processed_result snippet_data (clock i) i insight])"
| "insights_loop snippet_data clock i (other # rest) analyzed_results =
     (analyzed_results, Some (AttributeError ''object has no attribute get''))"

text \<open>
  The \<open>try\<close> block: the records appended to \<open>analyzed_results\<close>, and the exception
  that ended the block, if any.
\<close>

definition try_block :: "hit list \<Rightarrow> (nat \<Rightarrow> nat) \<Rightarrow> llm_reply
    \<Rightarrow> alert list \<times> py_error option" where
  "try_block snippet_data clock reply =
     (case reply of
        CallRaises m \<Rightarrow> ([], Some (APIError m))
      | Undecodable m \<Rightarrow> ([], Some (JSONDecodeError m))
      | EmptyContent \<Rightarrow> insights_loop snippet_data clock 0 [] []
      | Decoded (JObj result) \<Rightarrow>
          (case py_iter (dict_get result ''insights'' (JArr [])) of
             None \<Rightarrow> ([], Some (TypeError ''object is not iterable''))
           | Some found \<Rightarrow> insights_loop snippet_data clock 0 found [])
      | Decoded other \<Rightarrow> ([], Some (AttributeError ''object has no attribute get'')))"

text \<open>
  The \<open>except\<close> block: one fallback record for each hit. \<open>t\<close> counts the readings of
  the clock made so far.
\<close>

definition fallback_result :: "nat \<Rightarrow> nat \<Rightarrow> hit \<Rightarrow> alert" where
  "fallback_result now i item =
     \<lparr>alert_id = ''fallback_'' @ str_of_nat now @ ''_'' @ str_of_nat i,
      title = JStr (hit_title item),
      category = JStr ''Market Trends'',
      impact_level = JStr ''Medium'',
      summary = JStr (take 200 (hit_content item) @ ''...''),
      insights = JArr [JStr ''Market information available''],
      recommended_actions = JArr [JStr ''Review detailed source information''],
      suppliers_mentioned = JArr [],
      relevance_score = JNum 0.6,
      source = hit_source item,
      url = hit_url item,
      timestamp = hit_date item,
      intelligence_type = JStr ''Market Trends''\<rparr>"

fun fallback_loop :: "(nat \<Rightarrow> nat) \<Rightarrow> nat \<Rightarrow> nat \<Rightarrow> hit list \<Rightarrow> alert list
    \<Rightarrow> alert list" where
  "fallback_loop clock t i [] analyzed_results = analyzed_results"
| "fallback_loop clock t i (item # rest) analyzed_results =
     fallback_loop clock (Suc t) (Suc i) rest
       (analyzed_results @ [fallback_result (clock t) i item])"

text \<open>
  \<open>analyze_snippets_with_openai\<close>. \<open>openai_client\<close> says whether the client was set up.
  The configuration only shapes the prompt. Every exception of the \<open>try\<close> block is caught;
  the \<open>except\<close> block reads fields that every hit has, so nothing is raised to the caller.
  Each record of the \<open>try\<close> block has read the clock once, so the fallback records go on
  from the reading \<open>length analyzed_results\<close>.
\<close>

definition analyze_snippets_with_openai :: "bool \<Rightarrow> llm_reply \<Rightarrow> (nat \<Rightarrow> nat) \<Rightarrow> hit list
    \<Rightarrow> config \<Rightarrow> alert list" where
  "analyze_snippets_with_openai openai_client reply clock snippet_data cfg =
     (if \<not> openai_client then []
      else case try_block snippet_data clock reply of
             (analyzed_results, None) \<Rightarrow> analyzed_results
           | (analyzed_results, Some e) \<Rightarrow>
               fallback_loop clock (length analyzed_results) 0 snippet_data analyzed_results)"

text \<open>
  The invariants that the specification asks of an alert record: a relevance score in
  the unit interval, an impact level among High, Medium and Low, a category in a given
  enumeration.
\<close>

definition score_ok :: "json \<Rightarrow> bool" where
  "score_ok v = (case v of JNum x \<Rightarrow> 0 \<le> x \<and> x \<le> 1 | _ \<Rightarrow> False)"

definition impact_ok :: "json \<Rightarrow> bool" where
  "impact_ok v = (case v of JStr s \<Rightarrow> s \<in> set [''High'', ''Medium'', ''Low''] | _ \<Rightarrow> False)"

definition category_ok :: "string list \<Rightarrow> json \<Rightarrow> bool" where
  "category_ok enum v = (case v of JStr s \<Rightarrow> s \<in> set enum | _ \<Rightarrow> False)"

definition alert_ok :: "string list \<Rightarrow> alert \<Rightarrow> bool" where
  "alert_ok enum a =
     (score_ok (relevance_score a) \<and> impact_ok (impact_level a) \<and> category_ok enum (category a))"

text \<open>
  Modelled from the spec: the two category enumerations of section 4.4. The scanner
  itself holds no such table; it names some of the categories in its prompt only.
\<close>

definition market_category_enum :: "string list" where
  "market_category_enum = [''Infrastructure'', ''Technology'', ''Services'', ''Materials'',
     ''Equipment'', ''Market Trends'', ''Regulatory & Compliance'', ''Financial Intelligence'',
     ''Government Programs'', ''Innovation Tracking'', ''Competitive Intelligence'']"

definition supplier_category_enum :: "string list" where
  "supplier_category_enum = [''Financial Intelligence'', ''Regulatory & Compliance'',
     ''Government Programs'', ''Innovation Tracking'', ''Competitive Intelligence'']"

text \<open>
  The context of a scan, as the extractor decides it for its prompt: market categories
  when the configuration has some, else supplier intelligence when it has intelligence
  types, else market intelligence at large.
\<close>

definition context_enum :: "config \<Rightarrow> string list" where
  "context_enum cfg =
     (if get_or (market_categories cfg) [] \<noteq> [] then market_category_enum
      else if get_or (intelligence_types cfg) [] \<noteq> [] then supplier_category_enum
      else market_category_enum)"

text \<open>
  What the model's answer says about the three fields: an insight that gives a field
  gives it within the invariant. Insights that are not dictionaries say nothing.
\<close>

definition field_ok :: "(json \<Rightarrow> bool) \<Rightarrow> (string \<times> json) list \<Rightarrow> string \<Rightarrow> bool" where
  "field_ok P insight k = (case map_of insight k of None \<Rightarrow> True | Some v \<Rightarrow> P v)"

definition insight_ok :: "string list \<Rightarrow> json \<Rightarrow> bool" where
  "insight_ok enum v =
     (case v of
        JObj insight \<Rightarrow> field_ok score_ok insight ''relevance_score''
          \<and> field_ok impact_ok insight ''impact_level''
          \<and> field_ok (category_ok enum) insight ''category''
      | _ \<Rightarrow> True)"

text \<open>The insights that the loop of the \<open>try\<close> block is given.\<close>

definition reply_insights :: "llm_reply \<Rightarrow> json list" where
  "reply_insights reply =
     (case reply of
        Decoded (JObj result) \<Rightarrow>
          (case py_iter (dict_get result ''insights'' (JArr [])) of
             None \<Rightarrow> []
           | Some found \<Rightarrow> found)
      | _ \<Rightarrow> [])"

text \<open>
  The insights that the loop turns into records: the dictionaries up to the first
  insight that is not one.
\<close>

fun object_prefix :: "json list \<Rightarrow> (string \<times> json) list list" where
  "object_prefix [] = []"
| "object_prefix (JObj insight # rest) = insight # object_prefix rest"
| "object_prefix (other # rest) = []"

section \<open>Query construction\<close>

text \<open>
  The session state: the contextual trigger left by another panel, and the alert
  sequences stored under their keys.
\<close>

record trigger =
  trigger_type :: string
  trigger_name :: string
  trigger_category :: string

record session_state =
  contextual_trigger_data :: "trigger option"
  stored :: "string \<rightharpoonup> alert list"

definition nonempty_str :: "string option \<Rightarrow> string list" where
  "nonempty_str v = (case v of None \<Rightarrow> [] | Some s \<Rightarrow> if s = [] then [] else [s])"

definition base_components :: "config \<Rightarrow> string \<Rightarrow> string list" where
  "base_components cfg refinement_keywords =
     nonempty_str (geo_focus cfg)
     @ get_or (sub_sectors cfg) []
     @ get_or (categories cfg) []
     @ nonempty_str (config_keywords cfg)
     @ (if refinement_keywords = [] then [] else [refinement_keywords])
     @ [''built assets'', ''construction'', ''infrastructure'']"

text \<open>The part of \<open>construct_search_queries\<close> that works from the configuration.\<close>

definition standing_queries :: "config \<Rightarrow> string \<Rightarrow> string list" where
  "standing_queries cfg refinement_keywords =
     (let components = base_components cfg refinement_keywords;
          queries =
            (if components \<noteq> [] then
               [join '' '' (take 6 components)]
               @ (if length components > 3 then
                    [join '' '' [components ! 0, components ! 1, ''market analysis'', ''2024''],
                     join '' '' [components ! 0, ''procurement'', ''suppliers'', ''trends'']]
                  else [])
             else [''UK built assets construction market trends 2024''])
      in take 3 queries)"

text \<open>
  \<open>construct_search_queries\<close>: the queries and the session state it leaves. Only a
  trigger of type \<open>sourcing_package\<close> is acted on and cleared.
\<close>

definition construct_search_queries :: "session_state \<Rightarrow> config \<Rightarrow> string
    \<Rightarrow> string list \<times> session_state" where
  "construct_search_queries st cfg refinement_keywords =
     (case contextual_trigger_data st of
        None \<Rightarrow> (standing_queries cfg refinement_keywords, st)
      | Some trigger \<Rightarrow>
          if trigger_type trigger = ''sourcing_package'' then
            ([trigger_name trigger @ '' '' @ trigger_category trigger
                @ '' market trends suppliers UK''],
             st\<lparr>contextual_trigger_data := None\<rparr>)
          else (standing_queries cfg refinement_keywords, st))"

section \<open>The alert store\<close>

text \<open>
  \<open>generate_market_category_alerts\<close> assigns the analysed records to the session key
  of the category; \<open>render_current_intelligence_view\<close> reads the key and shows the
  records, or a placeholder when the key is absent or holds an empty list.
\<close>

definition alerts_key :: "string \<Rightarrow> string" where
  "alerts_key cat = ''market_alerts_'' @ cat"

definition store_alerts :: "string \<Rightarrow> alert list \<Rightarrow> session_state \<Rightarrow> session_state" where
  "store_alerts cat analyzed_results st =
     st\<lparr>stored := (stored st)(alerts_key cat \<mapsto> analyzed_results)\<rparr>"

datatype view = Alerts "alert list" | Placeholder string

definition render_current_intelligence_view :: "string \<Rightarrow> session_state \<Rightarrow> view" where
  "render_current_intelligence_view cat st =
     (case stored st (alerts_key cat) of
        None \<Rightarrow> Placeholder cat
      | Some alerts \<Rightarrow> if alerts \<noteq> [] then Alerts alerts else Placeholder cat)"

text \<open>The sequence read for a category: the records on view, none under the placeholder.\<close>

definition read_alerts :: "string \<Rightarrow> session_state \<Rightarrow> alert list" where
  "read_alerts cat st =
     (case render_current_intelligence_view cat st of
        Alerts alerts \<Rightarrow> alerts
      | Placeholder _ \<Rightarrow> [])"

section \<open>Starting values\<close>

text \<open>
  The session as the application initialises it: no contextual trigger, nothing stored.
  The empty configuration is the dictionary with no key. \<open>provider_returning\<close> is a
  search provider that answers every call with the same items. \<open>clock_at t\<close> is a clock
  that reads \<open>t\<close> at every reading of one call.
\<close>

definition fresh_session :: session_state where
  "fresh_session = \<lparr>contextual_trigger_data = None, stored = Map.empty\<rparr>"

definition empty_config :: config where
  "empty_config =
     \<lparr>geo_focus = None, sub_sectors = None, categories = None, config_keywords = None,
      geographic_scope = None, time_range = None, suppliers = None,
      intelligence_types = None, market_categories = None\<rparr>"

definition provider_returning :: "raw_item list \<Rightarrow> provider" where
  "provider_returning items params = Returns (Some items)"

definition clock_at :: "nat \<Rightarrow> nat \<Rightarrow> nat" where
  "clock_at t n = t"

section \<open>Substring test against the library\<close>

lemma starts_with_prefix: "starts_with p s = prefix p s"
  by (induction p s rule: starts_with.induct) simp_all

lemma contains_sublist: "contains p s = sublist p s"
proof (induction s)
  case Nil
  show ?case by simp
next
  case (Cons c cs)
  show ?case
    by (simp add: Cons.IH starts_with_prefix sublist_Cons_right)
qed

section \<open>Relevance filter: the permissive default and the keyword order\<close>

text \<open>
  Claim C3. With the UK scope active, a hit whose url has no national domain suffix,
  whose title and snippet have no national keyword, and whose url and text have no
  exclusion token, is kept: the filter answers true.
\<close>

theorem is_uk_relevant_permissive_default:
  assumes "''UK'' \<in> set scope"
    and "\<not> any_in uk_domains (item_url item)"
    and "\<not> any_in uk_keywords (title_snippet item)"
    and "\<not> any_in non_uk_indicators (item_url item)"
    and "\<not> any_in non_uk_indicators (title_snippet item)"
  shows "is_uk_relevant item scope = True"
  using assms by (simp add: is_uk_relevant_def any_in_def list_ex_iff)

theorem is_uk_relevant_permissive_default_witness:
  "is_uk_relevant
     \<lparr>item_title = Some ''Pipeline renewal programme'',
      item_link = Some ''https://www.waterworld.us/news'',
      item_snippet = Some ''Municipal water mains replaced'',
      item_displayLink = Some ''www.waterworld.us'',
      item_pagemap = None\<rparr> [''UK''] = True"
proof -
  let ?item = "\<lparr>item_title = Some ''Pipeline renewal programme'',
      item_link = Some ''https://www.waterworld.us/news'',
      item_snippet = Some ''Municipal water mains replaced'',
      item_displayLink = Some ''www.waterworld.us'',
      item_pagemap = None\<rparr>"
  have s: "''UK'' \<in> set [''UK'']" by simp
  have d: "\<not> any_in uk_domains (item_url ?item)" by code_simp
  have k: "\<not> any_in uk_keywords (title_snippet ?item)" by code_simp
  have u: "\<not> any_in non_uk_indicators (item_url ?item)" by code_simp
  have t: "\<not> any_in non_uk_indicators (title_snippet ?item)" by code_simp
  show ?thesis by (rule is_uk_relevant_permissive_default [OF s d k u t])
qed

text \<open>
  Claim C10. With the UK scope active, a hit whose lowercased title and snippet contain
  the two characters \<open>uk\<close> anywhere, also inside a longer word such as Ukraine, is kept.
  The keyword test comes before the exclusion test, so the hit is kept whatever exclusion
  tokens its text or url hold.
\<close>

theorem is_uk_relevant_uk_substring:
  assumes "''UK'' \<in> set scope"
    and "contains ''uk'' (title_snippet item)"
  shows "is_uk_relevant item scope = True"
  using assms by (simp add: is_uk_relevant_def any_in_def uk_keywords_def)

theorem is_uk_relevant_uk_substring_witness:
  "any_in non_uk_indicators (title_snippet
     \<lparr>item_title = Some ''Ukraine grain exports'',
      item_link = Some ''https://www.example.com/world'',
      item_snippet = Some ''Shipments to the United States resume'',
      item_displayLink = Some ''www.example.com'',
      item_pagemap = None\<rparr>)
   \<and> is_uk_relevant
     \<lparr>item_title = Some ''Ukraine grain exports'',
      item_link = Some ''https://www.example.com/world'',
      item_snippet = Some ''Shipments to the United States resume'',
      item_displayLink = Some ''www.example.com'',
      item_pagemap = None\<rparr> [''UK''] = True"
proof -
  let ?item = "\<lparr>item_title = Some ''Ukraine grain exports'',
      item_link = Some ''https://www.example.com/world'',
      item_snippet = Some ''Shipments to the United States resume'',
      item_displayLink = Some ''www.example.com'',
      item_pagemap = None\<rparr>"
  have s: "''UK'' \<in> set [''UK'']" by simp
  have k: "contains ''uk'' (title_snippet ?item)" by code_simp
  have x: "any_in non_uk_indicators (title_snippet ?item)" by code_simp
  show ?thesis using x is_uk_relevant_uk_substring [OF s k] by simp
qed

section \<open>Search retrieval: one failing query does not stop the batch\<close>

lemma items_loop_acc:
  "items_loop scope query items acc =
     (acc @ fst (items_loop scope query items []), snd (items_loop scope query items []))"
proof (induction items arbitrary: acc)
  case Nil
  show ?case by simp
next
  case (Cons item items)
  show ?case
  proof (cases "is_uk_relevant item scope")
    case False
    then show ?thesis using Cons.IH [of acc] by simp
  next
    case True
    show ?thesis
    proof (cases "extract_date_from_result item")
      case (Inl e)
      with True show ?thesis by simp
    next
      case (Inr date)
      show ?thesis
        using True Inr Cons.IH [of "acc @ [search_result item date query]"]
          Cons.IH [of "[search_result item date query]"]
        by simp
    qed
  qed
qed

lemma search_one_query_acc:
  "search_one_query search cx scope dr query acc =
     (acc @ fst (search_one_query search cx scope dr query []),
      snd (search_one_query search cx scope dr query []))"
proof (cases "search (build_search_params cx scope dr query)")
  case (Raises e)
  then show ?thesis by (simp add: search_one_query_def)
next
  case (Returns found)
  show ?thesis
  proof (cases found)
    case None
    with Returns show ?thesis by (simp add: search_one_query_def)
  next
    case (Some items)
    obtain rs err where loop: "items_loop scope query items [] = (rs, err)"
      by (cases "items_loop scope query items []")
    have "items_loop scope query items acc = (acc @ rs, err)"
      using items_loop_acc [of scope query items acc] loop by simp
    with Returns Some loop show ?thesis
      by (cases err) (simp_all add: search_one_query_def)
  qed
qed

lemma queries_loop_acc:
  "queries_loop search cx scope dr queries acc errs =
     (acc @ fst (queries_loop search cx scope dr queries [] []),
      errs @ snd (queries_loop search cx scope dr queries [] []))"
proof (induction queries arbitrary: acc errs)
  case Nil
  show ?case by simp
next
  case (Cons query queries)
  obtain rs rep where one: "search_one_query search cx scope dr query [] = (rs, rep)"
    by (cases "search_one_query search cx scope dr query []")
  have one_acc: "search_one_query search cx scope dr query acc = (acc @ rs, rep)"
    using search_one_query_acc [of search cx scope dr query acc] one by simp
  show ?case
    using one one_acc Cons.IH [of "acc @ rs" "errs @ rep"] Cons.IH [of rs rep]
    by simp
qed

lemma queries_loop_append:
  "queries_loop search cx scope dr (before @ after) acc errs =
     (case queries_loop search cx scope dr before acc errs of
        (rs, rep) \<Rightarrow> queries_loop search cx scope dr after rs rep)"
  by (induction before arbitrary: acc errs) (simp_all split: prod.splits)

lemma execute_single_query:
  "execute_google_search True search cx [query] cfg
     = search_one_query search cx (config_scope cfg) (config_date_restrict cfg) query []"
  by (cases "search_one_query search cx (config_scope cfg) (config_date_restrict cfg) query []")
    (simp add: execute_google_search_def)

text \<open>
  Claim C6. Retrieval over a list of queries never raises, and a failure on one query
  touches that query only: the hits and the reports of a batch are those of the queries
  before, those of the query itself, and those of the queries after, in this order.
  When the search call of the query raises (a provider error or any other exception),
  the query gives no hit and one report. When the call returns and an exception is
  raised while its items are processed, the query gives the hits kept so far and one
  report. In both cases the queries after it are still run.
\<close>

theorem failing_query_does_not_abort_batch:
  "execute_google_search True search cx (before @ query # after) cfg =
     (fst (execute_google_search True search cx before cfg)
        @ fst (execute_google_search True search cx [query] cfg)
        @ fst (execute_google_search True search cx after cfg),
      snd (execute_google_search True search cx before cfg)
        @ snd (execute_google_search True search cx [query] cfg)
        @ snd (execute_google_search True search cx after cfg))
   \<and> (search (build_search_params cx (config_scope cfg) (config_date_restrict cfg) query)
          = Raises e \<longrightarrow>
        execute_google_search True search cx [query] cfg = ([], [report_search_error query e]))
   \<and> (search (build_search_params cx (config_scope cfg) (config_date_restrict cfg) query)
          = Returns (Some items)
        \<and> items_loop (config_scope cfg) query items [] = (kept, Some e) \<longrightarrow>
        execute_google_search True search cx [query] cfg
          = (kept, [report_search_error query e]))"
proof (intro conjI impI)
  let ?scope = "config_scope cfg" and ?dr = "config_date_restrict cfg"
  obtain rs rep where b: "queries_loop search cx ?scope ?dr before [] [] = (rs, rep)"
    by (cases "queries_loop search cx ?scope ?dr before [] []")
  obtain qs qrep where q: "search_one_query search cx ?scope ?dr query [] = (qs, qrep)"
    by (cases "search_one_query search cx ?scope ?dr query []")
  have one: "search_one_query search cx ?scope ?dr query rs = (rs @ qs, qrep)"
    using search_one_query_acc [of search cx ?scope ?dr query rs] q by simp
  have "queries_loop search cx ?scope ?dr (before @ query # after) [] [] =
          queries_loop search cx ?scope ?dr after (rs @ qs) (rep @ qrep)"
    using b one by (simp add: queries_loop_append)
  also have "\<dots> = ((rs @ qs) @ fst (queries_loop search cx ?scope ?dr after [] []),
      (rep @ qrep) @ snd (queries_loop search cx ?scope ?dr after [] []))"
    by (rule queries_loop_acc)
  finally show "execute_google_search True search cx (before @ query # after) cfg =
     (fst (execute_google_search True search cx before cfg)
        @ fst (execute_google_search True search cx [query] cfg)
        @ fst (execute_google_search True search cx after cfg),
      snd (execute_google_search True search cx before cfg)
        @ snd (execute_google_search True search cx [query] cfg)
        @ snd (execute_google_search True search cx after cfg))"
    using b q by (simp add: execute_google_search_def)
next
  assume "search (build_search_params cx (config_scope cfg) (config_date_restrict cfg) query)
          = Raises e"
  then show "execute_google_search True search cx [query] cfg
      = ([], [report_search_error query e])"
    by (simp add: execute_single_query search_one_query_def)
next
  assume "search (build_search_params cx (config_scope cfg) (config_date_restrict cfg) query)
          = Returns (Some items)
        \<and> items_loop (config_scope cfg) query items [] = (kept, Some e)"
  then show "execute_google_search True search cx [query] cfg
      = (kept, [report_search_error query e])"
    by (simp add: execute_single_query search_one_query_def)
qed

theorem failing_query_does_not_abort_batch_witness:
  "execute_google_search True
     (\<lambda>p. if param_q p = ''pumps'' then Raises (HttpError ''quota exceeded'')
          else if param_q p = ''meters'' then Returns (Some
                 [\<lparr>item_title = Some ''first'', item_link = Some ''https://www.gov.uk/m'',
                   item_snippet = Some ''s'', item_displayLink = Some ''www.gov.uk'',
                   item_pagemap = None\<rparr>,
                  \<lparr>item_title = Some ''second'', item_link = Some ''https://www.gov.uk/n'',
                   item_snippet = Some ''s'', item_displayLink = Some ''www.gov.uk'',
                   item_pagemap = Some [(''article'', [])]\<rparr>,
                  \<lparr>item_title = Some ''third'', item_link = Some ''https://www.gov.uk/o'',
                   item_snippet = Some ''s'', item_displayLink = Some ''www.gov.uk'',
                   item_pagemap = None\<rparr>])
          else Returns (Some [\<lparr>item_title = Some (param_q p), item_link = Some ''https://www.gov.uk/a'',
                  item_snippet = Some ''s'', item_displayLink = Some ''www.gov.uk'',
                  item_pagemap = None\<rparr>]))
     ''cx'' ([''pipes''] @ ''pumps'' # [''valves''])
     (empty_config\<lparr>geographic_scope := Some [''EU'']\<rparr>)
   = ([\<lparr>hit_title = ''pipes'', hit_url = ''https://www.gov.uk/a'', hit_snippet = ''s'',
        hit_source = ''www.gov.uk'', hit_date = ''Recent'', hit_query = ''pipes'',
        hit_content = ''s''\<rparr>,
       \<lparr>hit_title = ''valves'', hit_url = ''https://www.gov.uk/a'', hit_snippet = ''s'',
        hit_source = ''www.gov.uk'', hit_date = ''Recent'', hit_query = ''valves'',
        hit_content = ''s''\<rparr>],
      [''Google Search API error for query '' @ [CHR 0x27] @ ''pumps'' @ [CHR 0x27] @ '': quota exceeded''])
   \<and> execute_google_search True
     (\<lambda>p. if param_q p = ''pumps'' then Raises (HttpError ''quota exceeded'')
          else if param_q p = ''meters'' then Returns (Some
                 [\<lparr>item_title = Some ''first'', item_link = Some ''https://www.gov.uk/m'',
                   item_snippet = Some ''s'', item_displayLink = Some ''www.gov.uk'',
                   item_pagemap = None\<rparr>,
                  \<lparr>item_title = Some ''second'', item_link = Some ''https://www.gov.uk/n'',
                   item_snippet = Some ''s'', item_displayLink = Some ''www.gov.uk'',
                   item_pagemap = Some [(''article'', [])]\<rparr>,
                  \<lparr>item_title = Some ''third'', item_link = Some ''https://www.gov.uk/o'',
                   item_snippet = Some ''s'', item_displayLink = Some ''www.gov.uk'',
                   item_pagemap = None\<rparr>])
          else Returns (Some [\<lparr>item_title = Some (param_q p), item_link = Some ''https://www.gov.uk/a'',
                  item_snippet = Some ''s'', item_displayLink = Some ''www.gov.uk'',
                  item_pagemap = None\<rparr>]))
     ''cx'' ([''pipes''] @ ''meters'' # [''valves''])
     (empty_config\<lparr>geographic_scope := Some [''EU'']\<rparr>)
   = ([\<lparr>hit_title = ''pipes'', hit_url = ''https://www.gov.uk/a'', hit_snippet = ''s'',
        hit_source = ''www.gov.uk'', hit_date = ''Recent'', hit_query = ''pipes'',
        hit_content = ''s''\<rparr>,
       \<lparr>hit_title = ''first'', hit_url = ''https://www.gov.uk/m'', hit_snippet = ''s'',
        hit_source = ''www.gov.uk'', hit_date = ''Recent'', hit_query = ''meters'',
        hit_content = ''s''\<rparr>,
       \<lparr>hit_title = ''valves'', hit_url = ''https://www.gov.uk/a'', hit_snippet = ''s'',
        hit_source = ''www.gov.uk'', hit_date = ''Recent'', hit_query = ''valves'',
        hit_content = ''s''\<rparr>],
      [''Unexpected error during search: list index out of range''])"
proof -
  let ?first = "\<lparr>item_title = Some ''first'', item_link = Some ''https://www.gov.uk/m'',
                   item_snippet = Some ''s'', item_displayLink = Some ''www.gov.uk'',
                   item_pagemap = None\<rparr>"
  let ?second = "\<lparr>item_title = Some ''second'', item_link = Some ''https://www.gov.uk/n'',
                   item_snippet = Some ''s'', item_displayLink = Some ''www.gov.uk'',
                   item_pagemap = Some [(''article'', [])]\<rparr>"
  let ?third = "\<lparr>item_title = Some ''third'', item_link = Some ''https://www.gov.uk/o'',
                   item_snippet = Some ''s'', item_displayLink = Some ''www.gov.uk'',
                   item_pagemap = None\<rparr>"
  let ?search = "\<lambda>p. if param_q p = ''pumps'' then Raises (HttpError ''quota exceeded'')
          else if param_q p = ''meters'' then Returns (Some [?first, ?second, ?third])
          else Returns (Some [\<lparr>item_title = Some (param_q p), item_link = Some ''https://www.gov.uk/a'',
                  item_snippet = Some ''s'', item_displayLink = Some ''www.gov.uk'',
                  item_pagemap = None\<rparr>])"
  let ?cfg = "empty_config\<lparr>geographic_scope := Some [''EU'']\<rparr>"
  let ?kept = "[\<lparr>hit_title = ''first'', hit_url = ''https://www.gov.uk/m'', hit_snippet = ''s'',
        hit_source = ''www.gov.uk'', hit_date = ''Recent'', hit_query = ''meters'',
        hit_content = ''s''\<rparr>]"
  have scope: "config_scope ?cfg = [''EU'']"
    by (simp add: config_scope_def get_or_def)
  have h: "?search (build_search_params ''cx'' (config_scope ?cfg) (config_date_restrict ?cfg) ''pumps'')
             = Raises (HttpError ''quota exceeded'')"
    by (simp add: build_search_params_def scope)
  have g1: "?search (build_search_params ''cx'' (config_scope ?cfg) (config_date_restrict ?cfg) ''meters'')
             = Returns (Some [?first, ?second, ?third])"
    by (simp add: build_search_params_def scope)
  have g2: "items_loop (config_scope ?cfg) ''meters'' [?first, ?second, ?third] []
      = (?kept, Some (IndexError ''list index out of range''))"
    by (simp add: scope is_uk_relevant_def extract_date_from_result_def search_result_def
        truthy_def get_or_def)
  have b: "execute_google_search True ?search ''cx'' [''pipes''] ?cfg =
      ([\<lparr>hit_title = ''pipes'', hit_url = ''https://www.gov.uk/a'', hit_snippet = ''s'',
        hit_source = ''www.gov.uk'', hit_date = ''Recent'', hit_query = ''pipes'',
        hit_content = ''s''\<rparr>], [])"
    by (simp add: execute_google_search_def search_one_query_def build_search_params_def
        scope is_uk_relevant_def extract_date_from_result_def search_result_def truthy_def
        get_or_def)
  have a: "execute_google_search True ?search ''cx'' [''valves''] ?cfg =
      ([\<lparr>hit_title = ''valves'', hit_url = ''https://www.gov.uk/a'', hit_snippet = ''s'',
        hit_source = ''www.gov.uk'', hit_date = ''Recent'', hit_query = ''valves'',
        hit_content = ''s''\<rparr>], [])"
    by (simp add: execute_google_search_def search_one_query_def build_search_params_def
        scope is_uk_relevant_def extract_date_from_result_def search_result_def truthy_def
        get_or_def)
  note raised = failing_query_does_not_abort_batch
    [where search = ?search and cx = "''cx''" and cfg = ?cfg and query = "''pumps''"
       and e = "HttpError ''quota exceeded''" and before = "[''pipes'']"
       and after = "[''valves'']"]
  note partial = failing_query_does_not_abort_batch
    [where search = ?search and cx = "''cx''" and cfg = ?cfg and query = "''meters''"
       and e = "IndexError ''list index out of range''" and before = "[''pipes'']"
       and after = "[''valves'']" and items = "[?first, ?second, ?third]" and kept = ?kept]
  have q1: "execute_google_search True ?search ''cx'' [''pumps''] ?cfg
      = ([], [report_search_error ''pumps'' (HttpError ''quota exceeded'')])"
    using raised h by blast
  have q2: "execute_google_search True ?search ''cx'' [''meters''] ?cfg
      = (?kept, [report_search_error ''meters'' (IndexError ''list index out of range'')])"
    using partial g1 g2 by blast
  have r1: "execute_google_search True ?search ''cx'' ([''pipes''] @ ''pumps'' # [''valves'']) ?cfg
      = (fst (execute_google_search True ?search ''cx'' [''pipes''] ?cfg)
           @ fst (execute_google_search True ?search ''cx'' [''pumps''] ?cfg)
           @ fst (execute_google_search True ?search ''cx'' [''valves''] ?cfg),
         snd (execute_google_search True ?search ''cx'' [''pipes''] ?cfg)
           @ snd (execute_google_search True ?search ''cx'' [''pumps''] ?cfg)
           @ snd (execute_google_search True ?search ''cx'' [''valves''] ?cfg))"
    using raised by (rule conjunct1)
  have r2: "execute_google_search True ?search ''cx'' ([''pipes''] @ ''meters'' # [''valves'']) ?cfg
      = (fst (execute_google_search True ?search ''cx'' [''pipes''] ?cfg)
           @ fst (execute_google_search True ?search ''cx'' [''meters''] ?cfg)
           @ fst (execute_google_search True ?search ''cx'' [''valves''] ?cfg),
         snd (execute_google_search True ?search ''cx'' [''pipes''] ?cfg)
           @ snd (execute_google_search True ?search ''cx'' [''meters''] ?cfg)
           @ snd (execute_google_search True ?search ''cx'' [''valves''] ?cfg))"
    using partial by (rule conjunct1)
  show ?thesis
    unfolding r1 r2 a b q1 q2 by simp
qed

section \<open>Relevance filter: the scenario of two hits\<close>

text \<open>
  A hit under \<open>.us\<close> with no national keyword is not dropped for that alone: the
  filter never looks at the \<open>.us\<close> suffix. With no exclusion token in its url or text
  the hit is kept by the permissive default, and retrieval returns both hits.
\<close>

theorem us_hit_without_exclusion_token_is_kept:
  "\<not> any_in uk_keywords (title_snippet
       \<lparr>item_title = Some ''Pipeline renewal programme'',
        item_link = Some ''https://www.waterworld.us/news'',
        item_snippet = Some ''Municipal water mains replaced'',
        item_displayLink = Some ''www.waterworld.us'', item_pagemap = None\<rparr>)
   \<and> is_uk_relevant
       \<lparr>item_title = Some ''Pipeline renewal programme'',
        item_link = Some ''https://www.waterworld.us/news'',
        item_snippet = Some ''Municipal water mains replaced'',
        item_displayLink = Some ''www.waterworld.us'', item_pagemap = None\<rparr> [''UK'']
   \<and> length (fst (execute_google_search True
       (provider_returning
          [\<lparr>item_title = Some ''Water strategy'',
            item_link = Some ''https://www.gov.uk/water'',
            item_snippet = Some ''Policy paper'',
            item_displayLink = Some ''www.gov.uk'', item_pagemap = None\<rparr>,
           \<lparr>item_title = Some ''Pipeline renewal programme'',
            item_link = Some ''https://www.waterworld.us/news'',
            item_snippet = Some ''Municipal water mains replaced'',
            item_displayLink = Some ''www.waterworld.us'', item_pagemap = None\<rparr>])
       ''cx'' [''Infrastructure'']
       (empty_config\<lparr>categories := Some [''Infrastructure''],
          geographic_scope := Some [''UK'']\<rparr>))) = 2"
  by code_simp

text \<open>
  Claim C2, as the code has it. With the scope \<open>["UK"]\<close> and a search that returns
  exactly two hits, the first with \<open>.gov.uk\<close> in its url and a date that can be
  extracted, the second with no national domain in its url, no national keyword in its
  title and snippet, and an exclusion token in its url or text: the filter keeps the
  first and drops the second, and retrieval returns the one normalised first hit.
\<close>

theorem uk_scope_keeps_gov_uk_drops_excluded:
  assumes "config_scope cfg = [''UK'']"
    and "search (build_search_params cx (config_scope cfg) (config_date_restrict cfg) query)
           = Returns (Some [first, second])"
    and "contains ''.gov.uk'' (item_url first)"
    and "extract_date_from_result first = Inr date"
    and "\<not> any_in uk_domains (item_url second)"
    and "\<not> any_in uk_keywords (title_snippet second)"
    and "any_in non_uk_indicators (item_url second)
           \<or> any_in non_uk_indicators (title_snippet second)"
  shows "is_uk_relevant first [''UK''] \<and> \<not> is_uk_relevant second [''UK'']
           \<and> fst (execute_google_search True search cx [query] cfg)
               = [search_result first date query]"
proof -
  have keep: "is_uk_relevant first [''UK'']"
    using assms(3) by (simp add: is_uk_relevant_def any_in_def uk_domains_def)
  have drop: "\<not> is_uk_relevant second [''UK'']"
    using assms(5-7) by (auto simp add: is_uk_relevant_def any_in_def list_ex_iff)
  have loop: "items_loop [''UK''] query [first, second] [] = ([search_result first date query], None)"
    using keep drop assms(4) by simp
  have "search_one_query search cx [''UK''] (config_date_restrict cfg) query []
          = ([search_result first date query], [])"
    using assms(1,2) loop by (simp add: search_one_query_def)
  then have "fst (execute_google_search True search cx [query] cfg)
               = [search_result first date query]"
    using assms(1) by (simp add: execute_google_search_def)
  with keep drop show ?thesis by simp
qed

theorem uk_scope_keeps_gov_uk_drops_excluded_witness:
  "fst (execute_google_search True
       (provider_returning
          [\<lparr>item_title = Some ''Water strategy'',
            item_link = Some ''https://www.gov.uk/water'',
            item_snippet = Some ''Policy paper'',
            item_displayLink = Some ''www.gov.uk'', item_pagemap = None\<rparr>,
           \<lparr>item_title = Some ''Colorado River supply'',
            item_link = Some ''https://www.denverwater.us/levels'',
            item_snippet = Some ''Reservoir levels'',
            item_displayLink = Some ''www.denverwater.us'', item_pagemap = None\<rparr>])
       ''cx'' [''Infrastructure'']
       (empty_config\<lparr>categories := Some [''Infrastructure''],
          geographic_scope := Some [''UK'']\<rparr>))
   = [\<lparr>hit_title = ''Water strategy'', hit_url = ''https://www.gov.uk/water'',
       hit_snippet = ''Policy paper'', hit_source = ''www.gov.uk'', hit_date = ''Recent'',
       hit_query = ''Infrastructure'', hit_content = ''Policy paper''\<rparr>]"
proof -
  let ?first = "\<lparr>item_title = Some ''Water strategy'',
            item_link = Some ''https://www.gov.uk/water'',
            item_snippet = Some ''Policy paper'',
            item_displayLink = Some ''www.gov.uk'', item_pagemap = None\<rparr>"
  let ?second = "\<lparr>item_title = Some ''Colorado River supply'',
            item_link = Some ''https://www.denverwater.us/levels'',
            item_snippet = Some ''Reservoir levels'',
            item_displayLink = Some ''www.denverwater.us'', item_pagemap = None\<rparr>"
  let ?cfg = "empty_config\<lparr>categories := Some [''Infrastructure''],
          geographic_scope := Some [''UK'']\<rparr>"
  have h1: "config_scope ?cfg = [''UK'']" by (simp add: config_scope_def get_or_def)
  have h2: "provider_returning [?first, ?second]
      (build_search_params ''cx'' (config_scope ?cfg) (config_date_restrict ?cfg) ''Infrastructure'')
      = Returns (Some [?first, ?second])"
    by (simp add: provider_returning_def)
  have h3: "contains ''.gov.uk'' (item_url ?first)" by code_simp
  have h4: "extract_date_from_result ?first = Inr ''Recent''" by code_simp
  have h5: "\<not> any_in uk_domains (item_url ?second)" by code_simp
  have h6: "\<not> any_in uk_keywords (title_snippet ?second)" by code_simp
  have h7: "any_in non_uk_indicators (item_url ?second)
      \<or> any_in non_uk_indicators (title_snippet ?second)" by code_simp
  have r: "search_result ?first ''Recent'' ''Infrastructure''
      = \<lparr>hit_title = ''Water strategy'', hit_url = ''https://www.gov.uk/water'',
         hit_snippet = ''Policy paper'', hit_source = ''www.gov.uk'', hit_date = ''Recent'',
         hit_query = ''Infrastructure'', hit_content = ''Policy paper''\<rparr>"
    by (simp add: search_result_def get_or_def)
  show ?thesis
    using uk_scope_keeps_gov_uk_drops_excluded
      [where search = "provider_returning [?first, ?second]" and cx = "''cx''"
         and cfg = ?cfg and query = "''Infrastructure''",
       OF h1 h2 h3 h4 h5 h6 h7]
    by (simp only: r)
qed

section \<open>Insight extraction: the two loops\<close>

lemma insights_loop_prefix:
  "insights_loop sd clock i found acc =
     (acc @ map (\<lambda>(j, insight). processed_result sd (clock j) j insight)
              (List.enumerate i (object_prefix found)),
      snd (insights_loop sd clock i found acc))"
  by (induction sd clock i found acc rule: insights_loop.induct) simp_all

lemma insights_loop_objects:
  "insights_loop sd clock i (map JObj kvs) acc =
     (acc @ map (\<lambda>(j, kv). processed_result sd (clock j) j kv) (List.enumerate i kvs), None)"
  by (induction kvs arbitrary: i acc) simp_all

lemma fallback_loop_enumerate:
  "fallback_loop clock t i items acc =
     acc @ map (\<lambda>(j, item). fallback_result (clock (t + j)) (i + j) item)
             (List.enumerate 0 items)"
proof (induction items arbitrary: t i acc)
  case Nil
  show ?case by simp
next
  case (Cons item items)
  have shift: "map (\<lambda>(j, item). fallback_result (clock (t + j)) (i + j) item)
                 (List.enumerate (Suc 0) items)
             = map (\<lambda>(j, item). fallback_result (clock (Suc t + j)) (Suc i + j) item)
                 (List.enumerate 0 items)"
    by (simp add: enumerate_Suc_eq split_def)
  show ?case
    using Cons.IH [of "Suc t" "Suc i" "acc @ [fallback_result (clock t) i item]"] shift
    by simp
qed

lemma dict_get_ok:
  assumes "field_ok P insight k" and "P dflt"
  shows "P (dict_get insight k dflt)"
  using assms by (cases "map_of insight k") (simp_all add: field_ok_def dict_get_def get_or_def)

lemma alert_ok_fields:
  "alert_ok enum a \<longleftrightarrow>
     score_ok (relevance_score a) \<and> impact_ok (impact_level a) \<and> category_ok enum (category a)"
  by (simp add: alert_ok_def)

lemma processed_result_fields:
  "relevance_score (processed_result sd now i insight)
     = dict_get insight ''relevance_score'' (JNum 0.7)"
  "impact_level (processed_result sd now i insight)
     = dict_get insight ''impact_level'' (JStr ''Medium'')"
  "category (processed_result sd now i insight)
     = dict_get insight ''category'' (JStr ''Market Trends'')"
  by (simp_all add: processed_result_def Let_def)

lemma category_ok_mono:
  assumes "category_ok enum v" and "set enum \<subseteq> set wider"
  shows "category_ok wider v"
  using assms by (cases v) (auto simp add: category_ok_def)

lemma processed_result_ok:
  assumes "insight_ok enum (JObj insight)"
  shows "alert_ok (''Market Trends'' # enum) (processed_result sd now i insight)"
proof -
  have f: "field_ok score_ok insight ''relevance_score''"
    "field_ok impact_ok insight ''impact_level''"
    "field_ok (category_ok enum) insight ''category''"
    using assms by (simp_all add: insight_ok_def)
  have w: "field_ok (category_ok (''Market Trends'' # enum)) insight ''category''"
  proof (cases "map_of insight ''category''")
    case None
    then show ?thesis by (simp add: field_ok_def)
  next
    case (Some v)
    with f(3) have "category_ok enum v" by (simp add: field_ok_def)
    then have "category_ok (''Market Trends'' # enum) v"
      by (rule category_ok_mono) auto
    with Some show ?thesis by (simp add: field_ok_def)
  qed
  have d: "score_ok (JNum 0.7)" "impact_ok (JStr ''Medium'')"
    "category_ok (''Market Trends'' # enum) (JStr ''Market Trends'')"
    by (simp_all add: score_ok_def impact_ok_def category_ok_def)
  have s: "score_ok (dict_get insight ''relevance_score'' (JNum 0.7))"
    by (rule dict_get_ok [where P = score_ok, OF f(1) d(1)])
  have l: "impact_ok (dict_get insight ''impact_level'' (JStr ''Medium''))"
    by (rule dict_get_ok [where P = impact_ok, OF f(2) d(2)])
  have c: "category_ok (''Market Trends'' # enum)
             (dict_get insight ''category'' (JStr ''Market Trends''))"
    by (rule dict_get_ok [where P = "category_ok (''Market Trends'' # enum)", OF w d(3)])
  show ?thesis
    unfolding alert_ok_fields processed_result_fields using s l c by (intro conjI)
qed

lemma processed_result_given_category:
  assumes "insight_ok enum (JObj insight)" and "map_of insight ''category'' \<noteq> None"
  shows "category_ok enum (category (processed_result sd now i insight))"
proof -
  obtain v where v: "map_of insight ''category'' = Some v"
    using assms(2) by auto
  have "field_ok (category_ok enum) insight ''category''"
    using assms(1) by (simp add: insight_ok_def)
  with v have "category_ok enum v" by (simp add: field_ok_def)
  with v show ?thesis
    by (simp add: processed_result_fields dict_get_def get_or_def)
qed

lemma fallback_result_ok:
  "alert_ok (''Market Trends'' # enum) (fallback_result now i item)"
  by (simp add: alert_ok_def fallback_result_def score_ok_def impact_ok_def category_ok_def)

lemma insights_loop_ok:
  assumes "list_all (insight_ok enum) found"
    and "list_all (alert_ok (''Market Trends'' # enum)) acc"
  shows "list_all (alert_ok (''Market Trends'' # enum)) (fst (insights_loop sd clock i found acc))"
  using assms
proof (induction sd clock i found acc rule: insights_loop.induct)
  case (2 sd clock i insight rest acc)
  then show ?case by (simp add: processed_result_ok)
qed simp_all

lemma fallback_loop_ok:
  assumes "list_all (alert_ok (''Market Trends'' # enum)) acc"
  shows "list_all (alert_ok (''Market Trends'' # enum)) (fallback_loop clock t i items acc)"
  using assms
  by (induction items arbitrary: t i acc) (simp_all add: fallback_result_ok)

lemma object_prefix_ok:
  assumes "list_all (insight_ok enum) found" and "i < length (object_prefix found)"
  shows "insight_ok enum (JObj (object_prefix found ! i))"
  using assms
proof (induction found arbitrary: i rule: object_prefix.induct)
  case (2 insight rest)
  then show ?case by (cases i) simp_all
qed simp_all

lemma try_block_insights:
  "fst (try_block sd clock reply) = fst (insights_loop sd clock 0 (reply_insights reply) [])"
proof (cases reply)
  case (Decoded v)
  then show ?thesis
    by (cases v) (simp_all add: try_block_def reply_insights_def split: option.splits)
qed (simp_all add: try_block_def reply_insights_def)

lemma try_block_records:
  "fst (try_block sd clock reply)
     = map (\<lambda>(j, insight). processed_result sd (clock j) j insight)
         (List.enumerate 0 (object_prefix (reply_insights reply)))"
proof -
  have "fst (insights_loop sd clock 0 (reply_insights reply) [])
      = map (\<lambda>(j, insight). processed_result sd (clock j) j insight)
          (List.enumerate 0 (object_prefix (reply_insights reply)))"
    using insights_loop_prefix [of sd clock 0 "reply_insights reply" "[]"]
    by (metis append_Nil fst_conv)
  then show ?thesis by (simp only: try_block_insights)
qed

lemma analyze_shape:
  "analyze_snippets_with_openai True reply clock sd cfg
     = fst (try_block sd clock reply)
       @ (case snd (try_block sd clock reply) of
            None \<Rightarrow> []
          | Some e \<Rightarrow>
              map (\<lambda>(j, item).
                     fallback_result (clock (length (fst (try_block sd clock reply)) + j)) j item)
                (List.enumerate 0 sd))"
proof -
  obtain rs err where t: "try_block sd clock reply = (rs, err)"
    by (cases "try_block sd clock reply")
  show ?thesis
  proof (cases err)
    case None
    with t show ?thesis by (simp add: analyze_snippets_with_openai_def)
  next
    case (Some e)
    with t show ?thesis
      by (simp add: analyze_snippets_with_openai_def fallback_loop_enumerate)
  qed
qed

section \<open>Insight extraction: invariants of the records\<close>

text \<open>
  The extractor checks nothing of what the model answers: a relevance score of 5, an
  impact level \<open>Critical\<close> and a category \<open>Weather\<close> are copied into the record as they
  are. The fallback record has the category \<open>Market Trends\<close> in every context, which the
  supplier enumeration does not hold.
\<close>

theorem model_values_are_copied_unchecked:
  "\<not> list_all (alert_ok (context_enum (empty_config\<lparr>market_categories := Some [''Infrastructure'']\<rparr>)))
       (analyze_snippets_with_openai True
          (Decoded (JObj [(''insights'', JArr [JObj [(''relevance_score'', JNum 5),
             (''impact_level'', JStr ''Critical''), (''category'', JStr ''Weather'')]])]))
          (clock_at 0)
          [\<lparr>hit_title = ''Water strategy'', hit_url = ''https://www.gov.uk/water'',
            hit_snippet = ''Policy paper'', hit_source = ''www.gov.uk'', hit_date = ''Recent'',
            hit_query = ''Infrastructure'', hit_content = ''Policy paper''\<rparr>]
          (empty_config\<lparr>market_categories := Some [''Infrastructure'']\<rparr>))
   \<and> \<not> list_all (alert_ok (context_enum (empty_config\<lparr>intelligence_types := Some [''Financial Intelligence'']\<rparr>)))
       (analyze_snippets_with_openai True (CallRaises ''connection reset'') (clock_at 0)
          [\<lparr>hit_title = ''Water strategy'', hit_url = ''https://www.gov.uk/water'',
            hit_snippet = ''Policy paper'', hit_source = ''www.gov.uk'', hit_date = ''Recent'',
            hit_query = ''Infrastructure'', hit_content = ''Policy paper''\<rparr>]
          (empty_config\<lparr>intelligence_types := Some [''Financial Intelligence'']\<rparr>))"
  by (simp add: analyze_snippets_with_openai_def try_block_def dict_get_def get_or_def
      processed_result_def fallback_result_def alert_ok_def score_ok_def impact_ok_def
      category_ok_def context_enum_def empty_config_def supplier_category_enum_def)

text \<open>
  Claim C1, as the code has it. For every hit list and every outcome of the model call
  the extractor returns a list of records and raises nothing: whatever exception ends
  the \<open>try\<close> block, the result is the records appended before it followed by one
  fallback record for each hit. When every insight of the model's answer that gives a
  relevance score, an impact level or a category gives it within the invariant, then in
  every context: each record has a relevance score in the unit interval and an impact
  level among High, Medium and Low; each record has a category in the enumeration of the
  context or the default category \<open>Market Trends\<close>; a record whose insight gives a
  category has it in the enumeration of the context; and where the enumeration of the
  context holds \<open>Market Trends\<close> (the market contexts) every record satisfies the three
  invariants.
\<close>

theorem analyze_keeps_invariants_of_model_answer:
  "analyze_snippets_with_openai True reply clock snippet_data cfg
     = fst (try_block snippet_data clock reply)
       @ (case snd (try_block snippet_data clock reply) of
            None \<Rightarrow> []
          | Some e \<Rightarrow>
              map (\<lambda>(j, item).
                     fallback_result
                       (clock (length (fst (try_block snippet_data clock reply)) + j)) j item)
                (List.enumerate 0 snippet_data))
   \<and> (list_all (insight_ok (context_enum cfg)) (reply_insights reply) \<longrightarrow>
        list_all (alert_ok (''Market Trends'' # context_enum cfg))
          (analyze_snippets_with_openai openai_client reply clock snippet_data cfg)
        \<and> (''Market Trends'' \<in> set (context_enum cfg) \<longrightarrow>
             list_all (alert_ok (context_enum cfg))
               (analyze_snippets_with_openai openai_client reply clock snippet_data cfg))
        \<and> (\<forall>i < length (object_prefix (reply_insights reply)).
              map_of (object_prefix (reply_insights reply) ! i) ''category'' \<noteq> None \<longrightarrow>
              category_ok (context_enum cfg)
                (category (analyze_snippets_with_openai True reply clock snippet_data cfg ! i))))"
proof (intro conjI impI allI)
  show "analyze_snippets_with_openai True reply clock snippet_data cfg
     = fst (try_block snippet_data clock reply)
       @ (case snd (try_block snippet_data clock reply) of
            None \<Rightarrow> []
          | Some e \<Rightarrow>
              map (\<lambda>(j, item).
                     fallback_result
                       (clock (length (fst (try_block snippet_data clock reply)) + j)) j item)
                (List.enumerate 0 snippet_data))"
    by (rule analyze_shape)
next
  assume h: "list_all (insight_ok (context_enum cfg)) (reply_insights reply)"
  let ?wide = "''Market Trends'' # context_enum cfg"
  show wide: "list_all (alert_ok ?wide)
          (analyze_snippets_with_openai openai_client reply clock snippet_data cfg)"
  proof (cases openai_client)
    case False
    then show ?thesis by (simp add: analyze_snippets_with_openai_def)
  next
    case True
    obtain rs err where t: "try_block snippet_data clock reply = (rs, err)"
      by (cases "try_block snippet_data clock reply")
    have "rs = fst (insights_loop snippet_data clock 0 (reply_insights reply) [])"
      using t try_block_insights [of snippet_data clock reply] by simp
    then have rs: "list_all (alert_ok ?wide) rs"
      using h insights_loop_ok [of "context_enum cfg" "reply_insights reply" "[]"] by simp
    show ?thesis
    proof (cases err)
      case None
      with True t rs show ?thesis by (simp add: analyze_snippets_with_openai_def)
    next
      case (Some e)
      with True t show ?thesis
        using fallback_loop_ok [OF rs] by (simp add: analyze_snippets_with_openai_def)
    qed
  qed
  assume "''Market Trends'' \<in> set (context_enum cfg)"
  then have "alert_ok ?wide = alert_ok (context_enum cfg)"
    by (intro ext) (auto simp add: alert_ok_def category_ok_def split: json.splits)
  with wide show "list_all (alert_ok (context_enum cfg))
      (analyze_snippets_with_openai openai_client reply clock snippet_data cfg)"
    by simp
next
  fix i
  assume h: "list_all (insight_ok (context_enum cfg)) (reply_insights reply)"
    and i: "i < length (object_prefix (reply_insights reply))"
    and given: "map_of (object_prefix (reply_insights reply) ! i) ''category'' \<noteq> None"
  let ?objs = "object_prefix (reply_insights reply)"
  have len: "length (fst (try_block snippet_data clock reply)) = length ?objs"
    by (simp add: try_block_records)
  have "analyze_snippets_with_openai True reply clock snippet_data cfg ! i
      = fst (try_block snippet_data clock reply) ! i"
    using i len by (simp only: analyze_shape [of reply clock snippet_data cfg] nth_append if_True)
  also have "\<dots> = processed_result snippet_data (clock i) i (?objs ! i)"
    using i by (simp add: try_block_records nth_enumerate_eq)
  finally have r: "analyze_snippets_with_openai True reply clock snippet_data cfg ! i
      = processed_result snippet_data (clock i) i (?objs ! i)" .
  have "insight_ok (context_enum cfg) (JObj (?objs ! i))"
    using h i by (rule object_prefix_ok)
  then show "category_ok (context_enum cfg)
      (category (analyze_snippets_with_openai True reply clock snippet_data cfg ! i))"
    unfolding r using given by (rule processed_result_given_category)
qed

theorem analyze_keeps_invariants_of_model_answer_witness:
  "list_all (alert_ok (''Market Trends'' # supplier_category_enum))
     (analyze_snippets_with_openai True
        (Decoded (JObj [(''insights'', JArr [JObj [(''relevance_score'', JNum 0.85),
           (''impact_level'', JStr ''High''), (''category'', JStr ''Financial Intelligence'')],
           JObj [(''title'', JStr ''Untitled'')], JNum 3])]))
        (clock_at 0)
        [\<lparr>hit_title = ''Water strategy'', hit_url = ''https://www.gov.uk/water'',
          hit_snippet = ''Policy paper'', hit_source = ''www.gov.uk'', hit_date = ''Recent'',
          hit_query = ''Infrastructure'', hit_content = ''Policy paper''\<rparr>]
        (empty_config\<lparr>intelligence_types := Some [''Financial Intelligence'']\<rparr>))
   \<and> category_ok supplier_category_enum (category
     (analyze_snippets_with_openai True
        (Decoded (JObj [(''insights'', JArr [JObj [(''relevance_score'', JNum 0.85),
           (''impact_level'', JStr ''High''), (''category'', JStr ''Financial Intelligence'')],
           JObj [(''title'', JStr ''Untitled'')], JNum 3])]))
        (clock_at 0)
        [\<lparr>hit_title = ''Water strategy'', hit_url = ''https://www.gov.uk/water'',
          hit_snippet = ''Policy paper'', hit_source = ''www.gov.uk'', hit_date = ''Recent'',
          hit_query = ''Infrastructure'', hit_content = ''Policy paper''\<rparr>]
        (empty_config\<lparr>intelligence_types := Some [''Financial Intelligence'']\<rparr>) ! 0))
   \<and> list_all (alert_ok market_category_enum)
     (analyze_snippets_with_openai True
        (Decoded (JObj [(''insights'', JArr [JObj [(''relevance_score'', JNum 0.85),
           (''impact_level'', JStr ''High''), (''category'', JStr ''Infrastructure'')],
           JObj [(''title'', JStr ''Untitled'')], JNum 3])]))
        (clock_at 0)
        [\<lparr>hit_title = ''Water strategy'', hit_url = ''https://www.gov.uk/water'',
          hit_snippet = ''Policy paper'', hit_source = ''www.gov.uk'', hit_date = ''Recent'',
          hit_query = ''Infrastructure'', hit_content = ''Policy paper''\<rparr>]
        (empty_config\<lparr>market_categories := Some [''Infrastructure'']\<rparr>))"
proof -
  let ?cfg = "empty_config\<lparr>intelligence_types := Some [''Financial Intelligence'']\<rparr>"
  let ?reply = "Decoded (JObj [(''insights'', JArr [JObj [(''relevance_score'', JNum 0.85),
           (''impact_level'', JStr ''High''), (''category'', JStr ''Financial Intelligence'')],
           JObj [(''title'', JStr ''Untitled'')], JNum 3])])"
  let ?sd = "[\<lparr>hit_title = ''Water strategy'', hit_url = ''https://www.gov.uk/water'',
          hit_snippet = ''Policy paper'', hit_source = ''www.gov.uk'', hit_date = ''Recent'',
          hit_query = ''Infrastructure'', hit_content = ''Policy paper''\<rparr>]"
  have enum: "context_enum ?cfg = supplier_category_enum"
    by (simp add: context_enum_def empty_config_def get_or_def)
  have ins: "reply_insights ?reply = [JObj [(''relevance_score'', JNum 0.85),
           (''impact_level'', JStr ''High''), (''category'', JStr ''Financial Intelligence'')],
           JObj [(''title'', JStr ''Untitled'')], JNum 3]"
    by (simp add: reply_insights_def dict_get_def get_or_def)
  have h: "list_all (insight_ok (context_enum ?cfg)) (reply_insights ?reply)"
    unfolding enum ins
    by (simp add: insight_ok_def field_ok_def score_ok_def impact_ok_def category_ok_def
        supplier_category_enum_def)
  have i: "0 < length (object_prefix (reply_insights ?reply))"
    unfolding ins by simp
  have g: "map_of (object_prefix (reply_insights ?reply) ! 0) ''category'' \<noteq> None"
    unfolding ins by simp
  note t = analyze_keeps_invariants_of_model_answer
    [where reply = ?reply and clock = "clock_at 0" and snippet_data = ?sd and cfg = ?cfg
       and openai_client = True]
  from t h have a: "list_all (alert_ok (''Market Trends'' # context_enum ?cfg))
      (analyze_snippets_with_openai True ?reply (clock_at 0) ?sd ?cfg)"
    by blast
  from t h i g have b: "category_ok (context_enum ?cfg)
      (category (analyze_snippets_with_openai True ?reply (clock_at 0) ?sd ?cfg ! 0))"
    by blast
  let ?mcfg = "empty_config\<lparr>market_categories := Some [''Infrastructure'']\<rparr>"
  let ?mreply = "Decoded (JObj [(''insights'', JArr [JObj [(''relevance_score'', JNum 0.85),
           (''impact_level'', JStr ''High''), (''category'', JStr ''Infrastructure'')],
           JObj [(''title'', JStr ''Untitled'')], JNum 3])])"
  have menum: "context_enum ?mcfg = market_category_enum"
    by (simp add: context_enum_def empty_config_def get_or_def)
  have mins: "reply_insights ?mreply = [JObj [(''relevance_score'', JNum 0.85),
           (''impact_level'', JStr ''High''), (''category'', JStr ''Infrastructure'')],
           JObj [(''title'', JStr ''Untitled'')], JNum 3]"
    by (simp add: reply_insights_def dict_get_def get_or_def)
  have mh: "list_all (insight_ok (context_enum ?mcfg)) (reply_insights ?mreply)"
    unfolding menum mins
    by (simp add: insight_ok_def field_ok_def score_ok_def impact_ok_def category_ok_def
        market_category_enum_def)
  have mt: "''Market Trends'' \<in> set (context_enum ?mcfg)"
    unfolding menum by (simp add: market_category_enum_def)
  note u = analyze_keeps_invariants_of_model_answer
    [where reply = ?mreply and clock = "clock_at 0" and snippet_data = ?sd and cfg = ?mcfg
       and openai_client = True]
  from u mh mt have c: "list_all (alert_ok (context_enum ?mcfg))
      (analyze_snippets_with_openai True ?mreply (clock_at 0) ?sd ?mcfg)"
    by blast
  show ?thesis using a b c unfolding enum menum by (intro conjI)
qed

section \<open>Insight extraction: the fallback\<close>




section \<open>Insight extraction: provenance by position\<close>

text \<open>
  Claim C7. On the success path (the answer decodes to an object whose insights are
  a list of objects) with at least one hit, the record of the i-th insight takes its
  source, url and timestamp from the hit at index i modulo the number of hits.
\<close>

theorem insight_maps_to_hit_by_index_modulo:
  assumes "snippet_data \<noteq> []"
    and "reply = Decoded (JObj result)"
    and "dict_get result ''insights'' (JArr []) = JArr (map JObj found)"
  shows "length (analyze_snippets_with_openai True reply clock snippet_data cfg) = length found
         \<and> (\<forall>i < length found.
              analyze_snippets_with_openai True reply clock snippet_data cfg ! i
                = processed_result snippet_data (clock i) i (found ! i)
              \<and> source (analyze_snippets_with_openai True reply clock snippet_data cfg ! i)
                = hit_source (snippet_data ! (i mod length snippet_data))
              \<and> url (analyze_snippets_with_openai True reply clock snippet_data cfg ! i)
                = hit_url (snippet_data ! (i mod length snippet_data))
              \<and> timestamp (analyze_snippets_with_openai True reply clock snippet_data cfg ! i)
                = hit_date (snippet_data ! (i mod length snippet_data)))"
proof -
  have eq: "analyze_snippets_with_openai True reply clock snippet_data cfg
           = map (\<lambda>(j, kv). processed_result snippet_data (clock j) j kv)
               (List.enumerate 0 found)"
    using assms(2,3)
    by (simp add: analyze_snippets_with_openai_def try_block_def insights_loop_objects)
  have len: "length (analyze_snippets_with_openai True reply clock snippet_data cfg)
           = length found"
    by (simp add: eq)
  have nth: "analyze_snippets_with_openai True reply clock snippet_data cfg ! i
           = processed_result snippet_data (clock i) i (found ! i)" if "i < length found" for i
    using that by (simp add: eq nth_enumerate_eq)
  have fields: "source (processed_result snippet_data now i insight)
        = hit_source (snippet_data ! (i mod length snippet_data))
      \<and> url (processed_result snippet_data now i insight)
        = hit_url (snippet_data ! (i mod length snippet_data))
      \<and> timestamp (processed_result snippet_data now i insight)
        = hit_date (snippet_data ! (i mod length snippet_data))"
    for now i insight
    using assms(1) by (simp add: processed_result_def Let_def)
  show ?thesis
  proof (intro conjI allI impI)
    fix i assume i: "i < length found"
    show "analyze_snippets_with_openai True reply clock snippet_data cfg ! i
            = processed_result snippet_data (clock i) i (found ! i)"
      by (rule nth [OF i])
    show "source (analyze_snippets_with_openai True reply clock snippet_data cfg ! i)
            = hit_source (snippet_data ! (i mod length snippet_data))"
      by (simp only: nth [OF i] fields)
    show "url (analyze_snippets_with_openai True reply clock snippet_data cfg ! i)
            = hit_url (snippet_data ! (i mod length snippet_data))"
      by (simp only: nth [OF i] fields)
    show "timestamp (analyze_snippets_with_openai True reply clock snippet_data cfg ! i)
            = hit_date (snippet_data ! (i mod length snippet_data))"
      by (simp only: nth [OF i] fields)
  qed (rule len)
qed

theorem insight_maps_to_hit_by_index_modulo_witness:
  "source (analyze_snippets_with_openai True
       (Decoded (JObj [(''insights'', JArr (map JObj
          [[(''title'', JStr ''a'')], [(''title'', JStr ''b'')], [(''title'', JStr ''c'')]]))]))
       (clock_at 0)
       [\<lparr>hit_title = ''Water strategy'', hit_url = ''https://www.gov.uk/water'',
         hit_snippet = ''Policy paper'', hit_source = ''www.gov.uk'', hit_date = ''2024-05-01'',
         hit_query = ''Infrastructure'', hit_content = ''Policy paper''\<rparr>,
        \<lparr>hit_title = ''Pumps'', hit_url = ''https://www.ofwat.gov.uk/pumps'',
         hit_snippet = ''Price review'', hit_source = ''www.ofwat.gov.uk'', hit_date = ''Recent'',
         hit_query = ''Infrastructure'', hit_content = ''Price review''\<rparr>]
       empty_config ! 2) = ''www.gov.uk''"
proof -
  let ?sd = "[\<lparr>hit_title = ''Water strategy'', hit_url = ''https://www.gov.uk/water'',
         hit_snippet = ''Policy paper'', hit_source = ''www.gov.uk'', hit_date = ''2024-05-01'',
         hit_query = ''Infrastructure'', hit_content = ''Policy paper''\<rparr>,
        \<lparr>hit_title = ''Pumps'', hit_url = ''https://www.ofwat.gov.uk/pumps'',
         hit_snippet = ''Price review'', hit_source = ''www.ofwat.gov.uk'', hit_date = ''Recent'',
         hit_query = ''Infrastructure'', hit_content = ''Price review''\<rparr>]"
  let ?found = "[[(''title'', JStr ''a'')], [(''title'', JStr ''b'')], [(''title'', JStr ''c'')]]"
  let ?result = "[(''insights'', JArr (map JObj ?found))]"
  have h1: "?sd \<noteq> []" by simp
  have h2: "Decoded (JObj ?result) = Decoded (JObj ?result)" by simp
  have h3: "dict_get ?result ''insights'' (JArr []) = JArr (map JObj ?found)"
    by (simp add: dict_get_def get_or_def)
  have len: "(2::nat) < length ?found" by simp
  have "source (analyze_snippets_with_openai True (Decoded (JObj ?result)) (clock_at 0) ?sd
          empty_config ! 2)
      = hit_source (?sd ! (2 mod length ?sd))"
    using insight_maps_to_hit_by_index_modulo [OF h1 h2 h3, of "clock_at 0" empty_config] len
    by blast
  moreover have "(2::nat) mod length ?sd = 0" by (simp add: numeral_2_eq_2)
  ultimately show ?thesis by (simp only: nth_Cons_0 hit.simps)
qed

section \<open>Query construction: the default query and the trigger\<close>

lemma base_components_not_empty: "base_components cfg refinement_keywords \<noteq> []"
  by (simp add: base_components_def)

text \<open>
  Claim C4. With no trigger, an empty configuration and no refinement keywords,
  \<open>construct_search_queries\<close> returns exactly one query, but it is
  \<open>built assets construction infrastructure\<close>: the three fixed terms are added to the
  components before the test for emptiness, so the default query with the geography
  \<open>UK\<close> is never reached, and the query returned names no geography.
\<close>

theorem empty_config_query_has_no_geography:
  "construct_search_queries fresh_session empty_config []
     = ([''built assets construction infrastructure''], fresh_session)
   \<and> \<not> contains ''UK'' ''built assets construction infrastructure''
   \<and> standing_queries empty_config [] \<noteq> [''UK built assets construction market trends 2024'']"
  by (simp add: construct_search_queries_def fresh_session_def standing_queries_def
      base_components_def empty_config_def nonempty_str_def get_or_def)

text \<open>
  A trigger of another type than \<open>sourcing_package\<close> does not short-circuit: the
  queries come from the configuration and the trigger stays in the session.
\<close>

theorem other_trigger_is_not_consumed:
  "construct_search_queries
     (fresh_session\<lparr>contextual_trigger_data :=
        Some \<lparr>trigger_type = ''supplier'', trigger_name = ''Acme'',
              trigger_category = ''Pumps''\<rparr>\<rparr>)
     empty_config []
   = ([''built assets construction infrastructure''],
      fresh_session\<lparr>contextual_trigger_data :=
        Some \<lparr>trigger_type = ''supplier'', trigger_name = ''Acme'',
              trigger_category = ''Pumps''\<rparr>\<rparr>)"
  by (simp add: construct_search_queries_def fresh_session_def standing_queries_def
      base_components_def empty_config_def nonempty_str_def get_or_def)

text \<open>
  Claim C9, as the code has it. When a trigger of type \<open>sourcing_package\<close> is present,
  \<open>construct_search_queries\<close> returns exactly one query, made of the name and the
  category of the trigger, and clears the trigger; a second call on the session it
  leaves builds its queries from the configuration. A trigger of any other type is
  ignored and left in place: the queries are those of the configuration and the session
  is unchanged.
\<close>

theorem sourcing_package_trigger_fires_once:
  assumes "contextual_trigger_data st = Some t"
  shows "(trigger_type t = ''sourcing_package'' \<longrightarrow>
           construct_search_queries st cfg refinement_keywords
             = ([trigger_name t @ '' '' @ trigger_category t @ '' market trends suppliers UK''],
                st\<lparr>contextual_trigger_data := None\<rparr>)
           \<and> construct_search_queries
               (snd (construct_search_queries st cfg refinement_keywords)) cfg later_keywords
             = (standing_queries cfg later_keywords, st\<lparr>contextual_trigger_data := None\<rparr>))
         \<and> (trigger_type t \<noteq> ''sourcing_package'' \<longrightarrow>
           construct_search_queries st cfg refinement_keywords
             = (standing_queries cfg refinement_keywords, st))"
  using assms by (simp add: construct_search_queries_def)

theorem sourcing_package_trigger_fires_once_witness:
  "construct_search_queries
     (fresh_session\<lparr>contextual_trigger_data :=
        Some \<lparr>trigger_type = ''sourcing_package'', trigger_name = ''Mains renewal'',
              trigger_category = ''Pipes''\<rparr>\<rparr>)
     empty_config []
   = ([''Mains renewal Pipes market trends suppliers UK''], fresh_session)
   \<and> construct_search_queries
       (snd (construct_search_queries
          (fresh_session\<lparr>contextual_trigger_data :=
             Some \<lparr>trigger_type = ''sourcing_package'', trigger_name = ''Mains renewal'',
                   trigger_category = ''Pipes''\<rparr>\<rparr>)
          empty_config []))
       empty_config []
   = ([''built assets construction infrastructure''], fresh_session)
   \<and> construct_search_queries
     (fresh_session\<lparr>contextual_trigger_data :=
        Some \<lparr>trigger_type = ''price_alert'', trigger_name = ''Steel'',
              trigger_category = ''Materials''\<rparr>\<rparr>)
     (empty_config\<lparr>geo_focus := Some ''UK''\<rparr>) ''valves''
   = ([''UK valves built assets construction infrastructure'',
       ''UK valves market analysis 2024'', ''UK procurement suppliers trends''],
      fresh_session\<lparr>contextual_trigger_data :=
        Some \<lparr>trigger_type = ''price_alert'', trigger_name = ''Steel'',
              trigger_category = ''Materials''\<rparr>\<rparr>)"
proof -
  let ?t = "\<lparr>trigger_type = ''sourcing_package'', trigger_name = ''Mains renewal'',
              trigger_category = ''Pipes''\<rparr>"
  let ?st = "fresh_session\<lparr>contextual_trigger_data := Some ?t\<rparr>"
  let ?u = "\<lparr>trigger_type = ''price_alert'', trigger_name = ''Steel'',
              trigger_category = ''Materials''\<rparr>"
  let ?su = "fresh_session\<lparr>contextual_trigger_data := Some ?u\<rparr>"
  let ?cfg = "empty_config\<lparr>geo_focus := Some ''UK''\<rparr>"
  have h1: "contextual_trigger_data ?st = Some ?t" by simp
  have h2: "trigger_type ?t = ''sourcing_package''" by simp
  have k1: "contextual_trigger_data ?su = Some ?u" by simp
  have k2: "trigger_type ?u \<noteq> ''sourcing_package''" by simp
  have q: "standing_queries empty_config [] = [''built assets construction infrastructure'']"
    by (simp add: standing_queries_def base_components_def empty_config_def nonempty_str_def
        get_or_def)
  have p: "standing_queries ?cfg ''valves''
      = [''UK valves built assets construction infrastructure'',
         ''UK valves market analysis 2024'', ''UK procurement suppliers trends'']"
    by (simp add: standing_queries_def base_components_def empty_config_def nonempty_str_def
        get_or_def)
  have s: "?st\<lparr>contextual_trigger_data := None\<rparr> = fresh_session"
    by (simp add: fresh_session_def)
  have n: "trigger_name ?t @ '' '' @ trigger_category ?t @ '' market trends suppliers UK''
      = ''Mains renewal Pipes market trends suppliers UK''"
    by simp
  have fired: "construct_search_queries ?st empty_config []
        = ([''Mains renewal Pipes market trends suppliers UK''], fresh_session)
      \<and> construct_search_queries (snd (construct_search_queries ?st empty_config []))
          empty_config []
        = ([''built assets construction infrastructure''], fresh_session)"
    using sourcing_package_trigger_fires_once [OF h1, of empty_config "[]" "[]"] h2
    unfolding n q s by blast
  have ignored: "construct_search_queries ?su ?cfg ''valves''
      = ([''UK valves built assets construction infrastructure'',
          ''UK valves market analysis 2024'', ''UK procurement suppliers trends''], ?su)"
    using sourcing_package_trigger_fires_once [OF k1, of ?cfg "''valves''"] k2
    unfolding p by blast
  show ?thesis using fired ignored by (intro conjI) blast+
qed

section \<open>The alert store: round trip and overwrite\<close>

text \<open>
  Claim C8. Storing a sequence of records under a category and reading the category
  gives back the same records in the same order; storing a second sequence under the
  category replaces the first one entirely.
\<close>

theorem store_then_read:
  "read_alerts cat (store_alerts cat records st) = records
   \<and> read_alerts cat (store_alerts cat later (store_alerts cat records st)) = later
   \<and> store_alerts cat later (store_alerts cat records st) = store_alerts cat later st"
  by (simp add: read_alerts_def render_current_intelligence_view_def store_alerts_def)

end
